theory Spec2Isabelle
  imports Main
begin

section \<open>Shared data model\<close>

text \<open>
  A JavaScript \<open>Date\<close> is a number of milliseconds since the epoch, or the invalid date
  that \<open>new Date(s)\<close> yields for an unparsable \<open>s\<close>. \<open>new Date()\<close> always builds
  \<open>Date t\<close> from the reading \<open>t\<close> of the clock.
\<close>

datatype date = Date int | Invalid_Date


text \<open>Values that the code catches and logs or re-throws.\<close>

datatype js_error =
    SecurityError
  | QuotaExceededError
  | SyntaxError
  | TypeError
  | FirebaseError string

record Category =
  cat_id :: string
  name :: string
  color :: string
  backgroundColor :: string
  icon :: string
  createdAt :: date
  updatedAt :: date

record CreateCategoryDto =
  c_name :: string
  c_color :: string
  c_backgroundColor :: string
  c_icon :: string

text \<open>Every field of \<open>UpdateCategoryDto\<close> is optional; \<open>None\<close> is a field that the
  object does not have. An object that has a field with the value \<open>undefined\<close> is not
  represented.\<close>

record UpdateCategoryDto =
  u_name :: "string option"
  u_color :: "string option"
  u_backgroundColor :: "string option"
  u_icon :: "string option"

record CategoryStats =
  total :: nat
  withTasks :: nat
  empty' :: nat

record CategoryWithCount = Category +
  taskCount :: int

text \<open>One call of \<open>console.error(message, error)\<close>. The accented letter of the source's
  messages is written unaccented.\<close>

type_synonym console_line = "string \<times> js_error"

section \<open>Array and string primitives of the language\<close>

text \<open>\<open>Array.prototype.findIndex\<close>: the index of the first element that satisfies the
  predicate; \<open>None\<close> stands for the result \<open>-1\<close>.\<close>

fun findIndex :: "('a \<Rightarrow> bool) \<Rightarrow> 'a list \<Rightarrow> nat option" where
  "findIndex P [] = None"
| "findIndex P (x # xs) = (if P x then Some 0 else map_option Suc (findIndex P xs))"

text \<open>\<open>xs.slice(a, b)\<close> and \<open>xs.slice(a)\<close> for indices within \<open>0 .. length\<close>.\<close>

definition slice :: "nat \<Rightarrow> nat \<Rightarrow> 'a list \<Rightarrow> 'a list" where
  "slice a b xs = take (b - a) (drop a xs)"

definition slice_from :: "nat \<Rightarrow> 'a list \<Rightarrow> 'a list" where
  "slice_from a xs = drop a xs"

text \<open>\<open>s.substr(start, len)\<close> for a non-negative \<open>start\<close>.\<close>

definition substr :: "nat \<Rightarrow> nat \<Rightarrow> string \<Rightarrow> string" where
  "substr start len s = take len (drop start s)"

text \<open>The decimal rendering of an integer, as a template literal interpolates it.\<close>

definition digit :: "nat \<Rightarrow> char" where
  "digit d = ''0123456789'' ! d"

fun string_of_nat :: "nat \<Rightarrow> string" where
  "string_of_nat n =
     (if n < 10 then [digit n]
      else string_of_nat (n div 10) @ [digit (n mod 10)])"

declare string_of_nat.simps [simp del]

definition string_of_int :: "int \<Rightarrow> string" where
  "string_of_int i = (if i < 0 then ''-'' @ string_of_nat (nat (- i)) else string_of_nat (nat i))"

text \<open>\<open>v || 0\<close> on a number: \<open>0\<close> is the only falsy integer.\<close>

definition or_zero :: "int option \<Rightarrow> int" where
  "or_zero v = (case v of None \<Rightarrow> 0 | Some n \<Rightarrow> if n = 0 then 0 else n)"

text \<open>The spread \<open>{...category, ...updateCategoryDto, updatedAt: d}\<close>: a field that the
  DTO has replaces the category's, and \<open>updatedAt\<close> is written last.\<close>

definition spread_update :: "Category \<Rightarrow> UpdateCategoryDto \<Rightarrow> date \<Rightarrow> Category" where
  "spread_update c dto d =
     c\<lparr> name := (case u_name dto of None \<Rightarrow> name c | Some v \<Rightarrow> v),
        color := (case u_color dto of None \<Rightarrow> color c | Some v \<Rightarrow> v),
        backgroundColor := (case u_backgroundColor dto of None \<Rightarrow> backgroundColor c | Some v \<Rightarrow> v),
        icon := (case u_icon dto of None \<Rightarrow> icon c | Some v \<Rightarrow> v),
        updatedAt := d \<rparr>"

text \<open>The spread \<open>{...category, taskCount: n}\<close>.\<close>

definition with_count :: "Category \<Rightarrow> int \<Rightarrow> CategoryWithCount" where
  "with_count c n = Category.extend c (CategoryWithCount.fields n)"

section \<open>The local store: \<open>CategoryService\<close>\<close>

text \<open>
  The state a \<open>CategoryService\<close> reads and writes: its private signal, the contents of
  \<open>localStorage\<close>, the calls of \<open>localStorage.setItem\<close> made so far (key and value, also of
  the calls that threw) and the lines written with \<open>console.error\<close>.
\<close>

record CategoryService =
  categoriesSignal :: "Category list"
  localStorage :: "string \<rightharpoonup> string"
  setItem_calls :: "(string \<times> string) list"
  console :: "console_line list"

text \<open>What \<open>JSON.parse\<close> returned, as far as \<open>loadCategories\<close> looks at it under the
  declared type \<open>Category[]\<close>: a value that is not an array, or an array whose elements are
  \<open>null\<close> or objects with the fields of a category, the two dates in serialised form.\<close>

record StoredCategory =
  s_id :: string
  s_name :: string
  s_color :: string
  s_backgroundColor :: string
  s_icon :: string
  s_createdAt :: string
  s_updatedAt :: string

datatype parsed_item = Null_item | Category_item StoredCategory

datatype parsed = Not_array | Array "parsed_item list"

text \<open>The library functions the store calls: \<open>JSON.stringify\<close> on a category array,
  \<open>JSON.parse\<close> (which throws on malformed text) and \<open>new Date(s)\<close> on a string.\<close>

record js_runtime =
  JSON_stringify :: "Category list \<Rightarrow> string"
  JSON_parse :: "string \<Rightarrow> js_error + parsed"
  new_Date_of :: "string \<Rightarrow> date"

definition STORAGE_KEY :: string where
  "STORAGE_KEY = ''categories''"

definition categories :: "CategoryService \<Rightarrow> Category list" where
  "categories s = categoriesSignal s"

definition categoryCount :: "CategoryService \<Rightarrow> nat" where
  "categoryCount s = length (categories s)"

definition categoryStats :: "CategoryService \<Rightarrow> CategoryStats" where
  "categoryStats s = \<lparr> total = categoryCount s, withTasks = 0, empty' = categoryCount s \<rparr>"

definition getCategories :: "CategoryService \<Rightarrow> Category list" where
  "getCategories s = categories s"

definition getCategoryById :: "CategoryService \<Rightarrow> string \<Rightarrow> Category option" where
  "getCategoryById s i = find (\<lambda>c. cat_id c = i) (categories s)"

definition console_error :: "string \<Rightarrow> js_error \<Rightarrow> CategoryService \<Rightarrow> CategoryService" where
  "console_error msg e s = s\<lparr> console := console s @ [(msg, e)] \<rparr>"

text \<open>\<open>localStorage.setItem(k, v)\<close>. Whether the call throws (quota exceeded, storage
  disabled) is the environment's answer \<open>throws\<close>; a call that throws stores nothing.\<close>

definition setItem ::
  "js_error option \<Rightarrow> string \<Rightarrow> string \<Rightarrow> CategoryService \<Rightarrow> (js_error + unit) \<times> CategoryService" where
  "setItem throws k v s =
     (let s' = s\<lparr> setItem_calls := setItem_calls s @ [(k, v)] \<rparr>
      in case throws of
           Some e \<Rightarrow> (Inl e, s')
         | None \<Rightarrow> (Inr (), s'\<lparr> localStorage := (localStorage s')(k \<mapsto> v) \<rparr>))"

text \<open>\<open>updateCategories\<close>: the \<open>try\<close> block writes the storage and then sets the signal;
  the \<open>catch\<close> block logs and does not throw.\<close>

definition updateCategories ::
  "js_runtime \<Rightarrow> js_error option \<Rightarrow> Category list \<Rightarrow> CategoryService
     \<Rightarrow> (js_error + unit) \<times> CategoryService" where
  "updateCategories rt throws cats s =
     (case setItem throws STORAGE_KEY (JSON_stringify rt cats) s of
        (Inr _, s') \<Rightarrow> (Inr (), s'\<lparr> categoriesSignal := cats \<rparr>)
      | (Inl error, s') \<Rightarrow> (Inr (), console_error ''Error al guardar las categorias:'' error s'))"

text \<open>\<open>generateId\<close>: \<open>now\<close> is the value of \<open>Date.now()\<close> and \<open>r\<close> the value of
  \<open>Math.random().toString(36)\<close>.\<close>

definition generateId :: "int \<Rightarrow> string \<Rightarrow> string" where
  "generateId now r = string_of_int now @ ''-'' @ substr 2 9 r"

text \<open>What the environment answers during one \<open>createCategory\<close>, in the order the object
  literal is evaluated: \<open>Date.now()\<close> and \<open>Math.random().toString(36)\<close> inside
  \<open>generateId\<close>, then the clock readings of the two \<open>new Date()\<close>.\<close>

record create_env =
  Date_now :: int
  random36 :: string
  new_Date_created :: int
  new_Date_updated :: int

definition createCategory ::
  "js_runtime \<Rightarrow> create_env \<Rightarrow> js_error option \<Rightarrow> CreateCategoryDto \<Rightarrow> CategoryService
     \<Rightarrow> (js_error + Category) \<times> CategoryService" where
  "createCategory rt env throws createCategoryDto s =
     (let newCategory =
            \<lparr> cat_id = generateId (Date_now env) (random36 env),
              name = c_name createCategoryDto,
              color = c_color createCategoryDto,
              backgroundColor = c_backgroundColor createCategoryDto,
              icon = c_icon createCategoryDto,
              createdAt = Date (new_Date_created env),
              updatedAt = Date (new_Date_updated env) \<rparr>;
          currentCategories = categories s
      in case updateCategories rt throws (currentCategories @ [newCategory]) s of
           (Inl e, s') \<Rightarrow> (Inl e, s')
         | (Inr _, s') \<Rightarrow> (Inr newCategory, s'))"

text \<open>\<open>updateCategory\<close>; \<open>now\<close> is the clock reading of its \<open>new Date()\<close>, and the result
  \<open>null\<close> is \<open>None\<close>.\<close>

definition updateCategory ::
  "js_runtime \<Rightarrow> int \<Rightarrow> js_error option \<Rightarrow> string \<Rightarrow> UpdateCategoryDto \<Rightarrow> CategoryService
     \<Rightarrow> (js_error + Category option) \<times> CategoryService" where
  "updateCategory rt now throws i updateCategoryDto s =
     (let currentCategories = categories s
      in case findIndex (\<lambda>c. cat_id c = i) currentCategories of
           None \<Rightarrow> (Inr None, s)
         | Some categoryIndex \<Rightarrow>
             (let updatedCategory =
                    spread_update (currentCategories ! categoryIndex) updateCategoryDto (Date now);
                  updatedCategories =
                    slice 0 categoryIndex currentCategories @ [updatedCategory]
                      @ slice_from (categoryIndex + 1) currentCategories
              in case updateCategories rt throws updatedCategories s of
                   (Inl e, s') \<Rightarrow> (Inl e, s')
                 | (Inr _, s') \<Rightarrow> (Inr (Some updatedCategory), s')))"

definition deleteCategory ::
  "js_runtime \<Rightarrow> js_error option \<Rightarrow> string \<Rightarrow> CategoryService
     \<Rightarrow> (js_error + bool) \<times> CategoryService" where
  "deleteCategory rt throws i s =
     (let currentCategories = categories s;
          filteredCategories = filter (\<lambda>c. cat_id c \<noteq> i) currentCategories
      in if length filteredCategories = length currentCategories then (Inr False, s)
         else case updateCategories rt throws filteredCategories s of
                (Inl e, s') \<Rightarrow> (Inl e, s')
              | (Inr _, s') \<Rightarrow> (Inr True, s'))"

definition clearAllCategories ::
  "js_runtime \<Rightarrow> js_error option \<Rightarrow> CategoryService \<Rightarrow> (js_error + unit) \<times> CategoryService" where
  "clearAllCategories rt throws s = updateCategories rt throws [] s"

definition getCategoriesWithCount ::
  "CategoryService \<Rightarrow> (string \<rightharpoonup> int) \<Rightarrow> CategoryWithCount list" where
  "getCategoriesWithCount s taskCounts =
     map (\<lambda>category. with_count category (or_zero (taskCounts (cat_id category)))) (categories s)"

text \<open>The callback of the \<open>map\<close> in \<open>loadCategories\<close>: reading a property of \<open>null\<close>
  throws a \<open>TypeError\<close>; otherwise the two dates are rebuilt with \<open>new Date\<close>.\<close>

definition revive :: "js_runtime \<Rightarrow> parsed_item \<Rightarrow> js_error + Category" where
  "revive rt item =
     (case item of
        Null_item \<Rightarrow> Inl TypeError
      | Category_item category \<Rightarrow>
          Inr \<lparr> cat_id = s_id category,
                name = s_name category,
                color = s_color category,
                backgroundColor = s_backgroundColor category,
                icon = s_icon category,
                createdAt = new_Date_of rt (s_createdAt category),
                updatedAt = new_Date_of rt (s_updatedAt category) \<rparr>)"

text \<open>\<open>xs.map(f)\<close> for a callback that may throw: the first throw ends the map.\<close>

fun map_throwing :: "('a \<Rightarrow> js_error + 'b) \<Rightarrow> 'a list \<Rightarrow> js_error + 'b list" where
  "map_throwing f [] = Inr []"
| "map_throwing f (x # xs) =
     (case f x of
        Inl e \<Rightarrow> Inl e
      | Inr y \<Rightarrow> (case map_throwing f xs of Inl e \<Rightarrow> Inl e | Inr ys \<Rightarrow> Inr (y # ys)))"

text \<open>The \<open>try\<close> block of \<open>loadCategories\<close>. \<open>getItem_throws\<close> is the environment's
  answer to \<open>localStorage.getItem\<close>; the empty string is falsy, like \<open>null\<close>; calling
  \<open>map\<close> on a value that is not an array throws a \<open>TypeError\<close>.\<close>

definition loadCategories_try ::
  "js_runtime \<Rightarrow> js_error option \<Rightarrow> CategoryService \<Rightarrow> js_error + CategoryService" where
  "loadCategories_try rt getItem_throws s =
     (case getItem_throws of
        Some e \<Rightarrow> Inl e
      | None \<Rightarrow>
          (case localStorage s STORAGE_KEY of
             None \<Rightarrow> Inr s
           | Some stored \<Rightarrow>
               if stored = [] then Inr s
               else (case JSON_parse rt stored of
                       Inl e \<Rightarrow> Inl e
                     | Inr Not_array \<Rightarrow> Inl TypeError
                     | Inr (Array items) \<Rightarrow>
                         (case map_throwing (revive rt) items of
                            Inl e \<Rightarrow> Inl e
                          | Inr parsedCategories \<Rightarrow>
                              Inr (s\<lparr> categoriesSignal := parsedCategories \<rparr>)))))"

definition loadCategories ::
  "js_runtime \<Rightarrow> js_error option \<Rightarrow> CategoryService \<Rightarrow> (js_error + unit) \<times> CategoryService" where
  "loadCategories rt getItem_throws s =
     (case loadCategories_try rt getItem_throws s of
        Inr s' \<Rightarrow> (Inr (), s')
      | Inl error \<Rightarrow>
          (Inr (), (console_error ''Error al cargar las categorias:'' error s)
                     \<lparr> categoriesSignal := [] \<rparr>))"

text \<open>The field initialisers of the class, on the storage contents \<open>storage\<close>.\<close>

definition initial_CategoryService :: "(string \<rightharpoonup> string) \<Rightarrow> CategoryService" where
  "initial_CategoryService storage =
     \<lparr> categoriesSignal = [], localStorage = storage, setItem_calls = [], console = [] \<rparr>"

text \<open>The constructor: the field initialisers, then \<open>loadCategories\<close>.\<close>

definition new_CategoryService ::
  "js_runtime \<Rightarrow> js_error option \<Rightarrow> (string \<rightharpoonup> string) \<Rightarrow> js_error + CategoryService" where
  "new_CategoryService rt getItem_throws storage =
     (case loadCategories rt getItem_throws (initial_CategoryService storage) of
        (Inl e, _) \<Rightarrow> Inl e
      | (Inr _, s) \<Rightarrow> Inr s)"

section \<open>The remote store: \<open>FirebaseCategoryService\<close>\<close>

text \<open>The sentinel that \<open>serverTimestamp()\<close> returns.\<close>

datatype field_value = serverTimestamp

text \<open>The object \<open>categoryData\<close> that \<open>createCategory\<close> hands to \<open>addDoc\<close>.\<close>

record CategoryData =
  d_name :: string
  d_color :: string
  d_backgroundColor :: string
  d_icon :: string
  d_createdAt :: field_value
  d_updatedAt :: field_value

text \<open>The object \<open>updateData\<close>: the fields of the DTO and \<open>updatedAt\<close>.\<close>

record UpdateData = UpdateCategoryDto +
  d_updatedAt' :: field_value

text \<open>A write issued to Firestore: \<open>addDoc\<close> on a collection, \<open>updateDoc\<close> and
  \<open>deleteDoc\<close> on the document at a collection and an identifier.\<close>

datatype firestore_call =
    addDoc string CategoryData
  | updateDoc string string UpdateData
  | deleteDoc string string

text \<open>
  The state a \<open>FirebaseCategoryService\<close> reads and writes: its private signal, the
  writes it has issued to Firestore and the lines written with \<open>console.error\<close>.
  An \<open>async\<close> operation reads the signal only before its \<open>await\<close>, so its result and
  its effects are those of one step taken when it is called.
\<close>

record FirebaseCategoryService =
  fb_categoriesSignal :: "Category list"
  firestore_calls :: "firestore_call list"
  fb_console :: "console_line list"

text \<open>A document as \<open>collectionData\<close> delivers it, with \<open>idField: 'id'\<close>; a timestamp
  field is absent or a \<open>Timestamp\<close>, given by the time of its \<open>toDate()\<close>.\<close>

record FirestoreDoc =
  doc_id :: string
  doc_name :: string
  doc_color :: string
  doc_backgroundColor :: string
  doc_icon :: string
  doc_createdAt :: "int option"
  doc_updatedAt :: "int option"

definition fb_categories :: "FirebaseCategoryService \<Rightarrow> Category list" where
  "fb_categories s = fb_categoriesSignal s"

definition fb_categoryCount :: "FirebaseCategoryService \<Rightarrow> nat" where
  "fb_categoryCount s = length (fb_categories s)"

definition fb_categoryStats :: "FirebaseCategoryService \<Rightarrow> CategoryStats" where
  "fb_categoryStats s =
     \<lparr> total = fb_categoryCount s, withTasks = 0, empty' = fb_categoryCount s \<rparr>"

definition fb_console_error ::
  "string \<Rightarrow> js_error \<Rightarrow> FirebaseCategoryService \<Rightarrow> FirebaseCategoryService" where
  "fb_console_error msg e s = s\<lparr> fb_console := fb_console s @ [(msg, e)] \<rparr>"

definition issue :: "firestore_call \<Rightarrow> FirebaseCategoryService \<Rightarrow> FirebaseCategoryService" where
  "issue c s = s\<lparr> firestore_calls := firestore_calls s @ [c] \<rparr>"

text \<open>The callback of the \<open>map\<close> in \<open>getCategories$\<close>: \<open>x?.toDate() || new Date()\<close>
  is the document's date when the field is there and the clock reading otherwise
  (\<open>now_c\<close>, \<open>now_u\<close> for the two fields).\<close>

definition doc_to_category :: "FirestoreDoc \<times> int \<times> int \<Rightarrow> Category" where
  "doc_to_category d =
     (case d of (doc, now_c, now_u) \<Rightarrow>
        \<lparr> cat_id = doc_id doc,
          name = doc_name doc,
          color = doc_color doc,
          backgroundColor = doc_backgroundColor doc,
          icon = doc_icon doc,
          createdAt = (case doc_createdAt doc of Some t \<Rightarrow> Date t | None \<Rightarrow> Date now_c),
          updatedAt = (case doc_updatedAt doc of Some t \<Rightarrow> Date t | None \<Rightarrow> Date now_u) \<rparr>)"

text \<open>\<open>getCategories$\<close> on one delivery of the collection, each document with the clock
  readings available to its callback.\<close>

definition getCategories_stream :: "(FirestoreDoc \<times> int \<times> int) list \<Rightarrow> Category list" where
  "getCategories_stream docs = map doc_to_category docs"

text \<open>The two handlers that \<open>loadCategories\<close> subscribes.\<close>

definition subscription_next ::
  "(FirestoreDoc \<times> int \<times> int) list \<Rightarrow> FirebaseCategoryService \<Rightarrow> FirebaseCategoryService" where
  "subscription_next docs s = s\<lparr> fb_categoriesSignal := getCategories_stream docs \<rparr>"

definition subscription_error ::
  "js_error \<Rightarrow> FirebaseCategoryService \<Rightarrow> FirebaseCategoryService" where
  "subscription_error error s =
     (fb_console_error ''Error al cargar categorias desde Firestore:'' error s)
       \<lparr> fb_categoriesSignal := [] \<rparr>"

text \<open>The constructor: the field initialisers; \<open>loadCategories\<close> only subscribes, and
  the deliveries come later.\<close>

definition new_FirebaseCategoryService :: FirebaseCategoryService where
  "new_FirebaseCategoryService =
     \<lparr> fb_categoriesSignal = [], firestore_calls = [], fb_console = [] \<rparr>"

definition fb_getCategories :: "FirebaseCategoryService \<Rightarrow> Category list" where
  "fb_getCategories s = fb_categories s"

definition fb_getCategoryById :: "FirebaseCategoryService \<Rightarrow> string \<Rightarrow> Category option" where
  "fb_getCategoryById s i = find (\<lambda>c. cat_id c = i) (fb_categories s)"

text \<open>\<open>createCategory\<close>. \<open>answer\<close> is what the promise of \<open>addDoc\<close> settles to: a
  rejection, or the identifier of the new document; \<open>now_c\<close> and \<open>now_u\<close> are the clock
  readings of the two \<open>new Date()\<close>.\<close>

definition fb_createCategory ::
  "js_error + string \<Rightarrow> int \<Rightarrow> int \<Rightarrow> CreateCategoryDto \<Rightarrow> FirebaseCategoryService
     \<Rightarrow> (js_error + Category) \<times> FirebaseCategoryService" where
  "fb_createCategory answer now_c now_u createCategoryDto s =
     (let categoryData =
            \<lparr> d_name = c_name createCategoryDto,
              d_color = c_color createCategoryDto,
              d_backgroundColor = c_backgroundColor createCategoryDto,
              d_icon = c_icon createCategoryDto,
              d_createdAt = serverTimestamp,
              d_updatedAt = serverTimestamp \<rparr>;
          s' = issue (addDoc ''categories'' categoryData) s
      in case answer of
           Inr docRef_id \<Rightarrow>
             (Inr \<lparr> cat_id = docRef_id,
                    name = c_name createCategoryDto,
                    color = c_color createCategoryDto,
                    backgroundColor = c_backgroundColor createCategoryDto,
                    icon = c_icon createCategoryDto,
                    createdAt = Date now_c,
                    updatedAt = Date now_u \<rparr>, s')
         | Inl error \<Rightarrow>
             (Inl error, fb_console_error ''Error al crear categoria en Firestore:'' error s'))"

text \<open>\<open>updateCategory\<close>. \<open>rejected\<close> is the rejection of \<open>updateDoc\<close>'s promise, if
  any; \<open>now\<close> is the clock reading of \<open>new Date()\<close>.\<close>

definition fb_updateCategory ::
  "js_error option \<Rightarrow> int \<Rightarrow> string \<Rightarrow> UpdateCategoryDto \<Rightarrow> FirebaseCategoryService
     \<Rightarrow> (js_error + Category option) \<times> FirebaseCategoryService" where
  "fb_updateCategory rejected now i updateCategoryDto s =
     (case fb_getCategoryById s i of
        None \<Rightarrow> (Inr None, s)
      | Some category \<Rightarrow>
          (let updateData =
                 UpdateCategoryDto.extend updateCategoryDto (UpdateData.fields serverTimestamp);
               s' = issue (updateDoc ''categories'' i updateData) s
           in case rejected of
                None \<Rightarrow> (Inr (Some (spread_update category updateCategoryDto (Date now))), s')
              | Some error \<Rightarrow>
                  (Inl error,
                   fb_console_error ''Error al actualizar categoria en Firestore:'' error s')))"

definition fb_deleteCategory ::
  "js_error option \<Rightarrow> string \<Rightarrow> FirebaseCategoryService
     \<Rightarrow> (js_error + bool) \<times> FirebaseCategoryService" where
  "fb_deleteCategory rejected i s =
     (case fb_getCategoryById s i of
        None \<Rightarrow> (Inr False, s)
      | Some category \<Rightarrow>
          (let s' = issue (deleteDoc ''categories'' i) s
           in case rejected of
                None \<Rightarrow> (Inr True, s')
              | Some error \<Rightarrow>
                  (Inl error,
                   fb_console_error ''Error al eliminar categoria en Firestore:'' error s')))"

definition fb_getCategoriesWithCount ::
  "FirebaseCategoryService \<Rightarrow> (string \<rightharpoonup> int) \<Rightarrow> CategoryWithCount list" where
  "fb_getCategoriesWithCount s taskCounts =
     map (\<lambda>category. with_count category (or_zero (taskCounts (cat_id category))))
       (fb_categories s)"

section \<open>Sequences of operations\<close>

text \<open>One call on a \<open>CategoryService\<close>, with the environment's answers during it.\<close>

datatype local_op =
    Create create_env "js_error option" CreateCategoryDto
  | Update int "js_error option" string UpdateCategoryDto
  | Delete "js_error option" string
  | Clear "js_error option"

fun local_step :: "js_runtime \<Rightarrow> local_op \<Rightarrow> CategoryService \<Rightarrow> CategoryService" where
  "local_step rt (Create env throws dto) s = snd (createCategory rt env throws dto s)"
| "local_step rt (Update now throws i dto) s = snd (updateCategory rt now throws i dto s)"
| "local_step rt (Delete throws i) s = snd (deleteCategory rt throws i s)"
| "local_step rt (Clear throws) s = snd (clearAllCategories rt throws s)"

definition local_run :: "js_runtime \<Rightarrow> local_op list \<Rightarrow> CategoryService \<Rightarrow> CategoryService" where
  "local_run rt ops s = fold (local_step rt) ops s"

text \<open>One call on a \<open>FirebaseCategoryService\<close>, or one event of its subscription.\<close>

datatype remote_op =
    Fb_create "js_error + string" int int CreateCategoryDto
  | Fb_update "js_error option" int string UpdateCategoryDto
  | Fb_delete "js_error option" string
  | Notify_next "(FirestoreDoc \<times> int \<times> int) list"
  | Notify_error js_error

fun remote_step :: "remote_op \<Rightarrow> FirebaseCategoryService \<Rightarrow> FirebaseCategoryService" where
  "remote_step (Fb_create answer now_c now_u dto) s = snd (fb_createCategory answer now_c now_u dto s)"
| "remote_step (Fb_update rejected now i dto) s = snd (fb_updateCategory rejected now i dto s)"
| "remote_step (Fb_delete rejected i) s = snd (fb_deleteCategory rejected i s)"
| "remote_step (Notify_next docs) s = subscription_next docs s"
| "remote_step (Notify_error e) s = subscription_error e s"

definition remote_run :: "remote_op list \<Rightarrow> FirebaseCategoryService \<Rightarrow> FirebaseCategoryService" where
  "remote_run ops s = fold remote_step ops s"

section \<open>Concrete stores\<close>

text \<open>A runtime, three categories and a store of each kind holding them, on which the
  theorems below are instantiated.\<close>

definition example_runtime :: js_runtime where
  "example_runtime =
     \<lparr> JSON_stringify = (\<lambda>cs. concat (map (\<lambda>c. cat_id c @ '','') cs)),
       JSON_parse = (\<lambda>text. if text = ''[]'' then Inr (Array []) else Inl SyntaxError),
       new_Date_of = (\<lambda>text. Invalid_Date) \<rparr>"

definition work :: Category where
  "work = \<lparr> cat_id = ''a'', name = ''Work'', color = ''#fff'', backgroundColor = ''#000'',
            icon = ''briefcase'', createdAt = Date 1000, updatedAt = Date 1000 \<rparr>"

definition home :: Category where
  "home = \<lparr> cat_id = ''b'', name = ''Home'', color = ''#0f0'', backgroundColor = ''#111'',
            icon = ''house'', createdAt = Date 2000, updatedAt = Date 2500 \<rparr>"

definition play :: Category where
  "play = \<lparr> cat_id = ''c'', name = ''Play'', color = ''#00f'', backgroundColor = ''#222'',
            icon = ''ball'', createdAt = Date 3000, updatedAt = Date 3000 \<rparr>"

definition example_store :: CategoryService where
  "example_store =
     \<lparr> categoriesSignal = [work, home, play],
       localStorage = [''categories'' \<mapsto> ''a,b,c,''],
       setItem_calls = [],
       console = [] \<rparr>"

definition example_remote :: FirebaseCategoryService where
  "example_remote =
     \<lparr> fb_categoriesSignal = [work, home, play], firestore_calls = [], fb_console = [] \<rparr>"

definition rename_to_Job :: UpdateCategoryDto where
  "rename_to_Job = \<lparr> u_name = Some ''Job'', u_color = None, u_backgroundColor = None, u_icon = None \<rparr>"

definition study_dto :: CreateCategoryDto where
  "study_dto = \<lparr> c_name = ''Study'', c_color = ''#f00'', c_backgroundColor = ''#333'', c_icon = ''book'' \<rparr>"

text \<open>Answers of the environment to one \<open>createCategory\<close>: a call within one
  millisecond, a call during which the clock ticks between the two \<open>new Date()\<close>, and a
  call that draws the identifier \<open>1000-abc\<close>.\<close>

definition quiet_env :: create_env where
  "quiet_env = \<lparr> Date_now = 4000, random36 = ''0.k3x9q2m1zpw'', new_Date_created = 4000,
                 new_Date_updated = 4000 \<rparr>"

definition ticking_env :: create_env where
  "ticking_env = \<lparr> Date_now = 4000, random36 = ''0.k3x9q2m1zpw'', new_Date_created = 4000,
                   new_Date_updated = 4001 \<rparr>"

definition colliding_env :: create_env where
  "colliding_env = \<lparr> Date_now = 1000, random36 = ''0.abc'', new_Date_created = 1000,
                     new_Date_updated = 1000 \<rparr>"

definition earlier :: Category where
  "earlier = \<lparr> cat_id = ''1000-abc'', name = ''Old'', color = ''#fff'', backgroundColor = ''#000'',
               icon = ''star'', createdAt = Date 1000, updatedAt = Date 1000 \<rparr>"

definition store_with_earlier :: CategoryService where
  "store_with_earlier =
     \<lparr> categoriesSignal = [earlier], localStorage = Map.empty, setItem_calls = [], console = [] \<rparr>"

text \<open>The category that \<open>createCategory\<close> builds from \<open>study_dto\<close> under \<open>quiet_env\<close>,
  and \<open>work\<close> after \<open>rename_to_Job\<close> at clock reading \<open>1000\<close>.\<close>

definition study :: Category where
  "study = \<lparr> cat_id = ''4000-k3x9q2m1z'', name = ''Study'', color = ''#f00'',
             backgroundColor = ''#333'', icon = ''book'', createdAt = Date 4000,
             updatedAt = Date 4000 \<rparr>"

definition job :: Category where
  "job = \<lparr> cat_id = ''a'', name = ''Job'', color = ''#fff'', backgroundColor = ''#000'',
           icon = ''briefcase'', createdAt = Date 1000, updatedAt = Date 1000 \<rparr>"

section \<open>The merge of an update, in the words of the specification\<close>


section \<open>What a caller holds: arrays and records by reference\<close>

text \<open>
  An array or an object of the language is a cell of the memory, and a variable, a
  signal or an array element holds a reference to it. Both classes declare
  \<open>categories\<close>, \<open>getCategories\<close>, \<open>getCategoryById\<close> and \<open>getCategoriesWithCount\<close>
  with the same bodies over their own signal; this section gives these members on
  references, for either class.
\<close>

type_synonym ref = nat

datatype js_object =
    Array_object "ref list"
  | Category_object Category
  | CategoryWithCount_object CategoryWithCount

text \<open>The memory: its cells, the next reference that an allocation returns, and the
  reference that \<open>categoriesSignal\<close> holds.\<close>

record memory =
  heap :: "ref \<rightharpoonup> js_object"
  next_ref :: ref
  signal_ref :: ref

text \<open>An array literal, an object literal and \<open>map\<close> allocate a new cell.\<close>

definition alloc :: "js_object \<Rightarrow> memory \<Rightarrow> ref \<times> memory" where
  "alloc obj m =
     (next_ref m, m\<lparr> heap := (heap m)(next_ref m \<mapsto> obj), next_ref := Suc (next_ref m) \<rparr>)"

definition elements :: "memory \<Rightarrow> ref \<Rightarrow> ref list" where
  "elements m a = (case heap m a of Some (Array_object rs) \<Rightarrow> rs | _ \<Rightarrow> [])"

definition category_at :: "memory \<Rightarrow> ref \<Rightarrow> Category option" where
  "category_at m r = (case heap m r of Some (Category_object c) \<Rightarrow> Some c | _ \<Rightarrow> None)"

definition counted_at :: "memory \<Rightarrow> ref \<Rightarrow> CategoryWithCount option" where
  "counted_at m r = (case heap m r of Some (CategoryWithCount_object c) \<Rightarrow> Some c | _ \<Rightarrow> None)"

text \<open>The contents of an array of categories, and of an array of counted categories.\<close>

definition array_value :: "memory \<Rightarrow> ref \<Rightarrow> Category list" where
  "array_value m a = List.map_filter (category_at m) (elements m a)"

definition counted_array_value :: "memory \<Rightarrow> ref \<Rightarrow> CategoryWithCount list" where
  "counted_array_value m a = List.map_filter (counted_at m) (elements m a)"

text \<open>The collection of the store: the contents of the array that the signal holds. This
  is the list that \<open>categories\<close> stands for in the sections above.\<close>

definition store_value :: "memory \<Rightarrow> Category list" where
  "store_value m = array_value m (signal_ref m)"

text \<open>Calling the signal, or its read-only view, returns the array it holds.\<close>

definition categories_ref :: "memory \<Rightarrow> ref" where
  "categories_ref m = signal_ref m"



text \<open>The \<open>map\<close> of \<open>getCategoriesWithCount\<close>: for each element, the object literal
  \<open>{...category, taskCount: ...}\<close> is a new object. Under the declared type
  \<open>Category[]\<close> every element is a category record; a cell of another kind is passed
  over.\<close>

fun counted_copies :: "(string \<rightharpoonup> int) \<Rightarrow> ref list \<Rightarrow> memory \<Rightarrow> ref list \<times> memory" where
  "counted_copies taskCounts [] m = ([], m)"
| "counted_copies taskCounts (r # rs) m =
     (case category_at m r of
        None \<Rightarrow> counted_copies taskCounts rs m
      | Some category \<Rightarrow>
          (case alloc (CategoryWithCount_object
                         (with_count category (or_zero (taskCounts (cat_id category))))) m of
             (r', m') \<Rightarrow>
               (case counted_copies taskCounts rs m' of
                  (rs', m'') \<Rightarrow> (r' # rs', m''))))"

definition getCategoriesWithCount_ref :: "(string \<rightharpoonup> int) \<Rightarrow> memory \<Rightarrow> ref \<times> memory" where
  "getCategoriesWithCount_ref taskCounts m =
     (case counted_copies taskCounts (elements m (categories_ref m)) m of
        (rs', m') \<Rightarrow> alloc (Array_object rs') m')"




section \<open>Facts about the primitives\<close>

lemma findIndex_None_iff: "findIndex P xs = None \<longleftrightarrow> (\<forall>x \<in> set xs. \<not> P x)"
  by (induction xs) auto

lemma findIndex_Some_bound: "findIndex P xs = Some i \<Longrightarrow> i < length xs \<and> P (xs ! i)"
  by (induction xs arbitrary: i) (auto split: if_splits)



lemma filter_same_length: "length (filter P xs) = length xs \<longleftrightarrow> (\<forall>x \<in> set xs. P x)"
proof
  assume same: "length (filter P xs) = length xs"
  show "\<forall>x \<in> set xs. P x"
  proof (rule ballI, rule ccontr)
    fix x assume "x \<in> set xs" and "\<not> P x"
    then have "length (filter P xs) < length xs" by (rule length_filter_less)
    with same show False by simp
  qed
next
  assume "\<forall>x \<in> set xs. P x"
  then show "length (filter P xs) = length xs" by simp
qed




lemma find_appended:
  "\<forall>x \<in> set xs. \<not> P x \<Longrightarrow> P c \<Longrightarrow> find P (xs @ [c]) = Some c"
  by (induction xs) auto




lemma string_of_nat_digit: "n < 10 \<Longrightarrow> string_of_nat n = [digit n]"
  by (simp add: string_of_nat.simps)

lemma string_of_nat_more:
  "\<not> n < 10 \<Longrightarrow> string_of_nat n = string_of_nat (n div 10) @ [digit (n mod 10)]"
  by (subst string_of_nat.simps) simp

lemmas eval_id =
  digit_def generateId_def string_of_int_def substr_def string_of_nat_digit string_of_nat_more

lemma generateId_not_empty: "generateId now r \<noteq> []"
  by (simp add: generateId_def)

section \<open>Facts about the local store's write path\<close>

lemma updateCategories_ok:
  "updateCategories rt None cats s =
     (Inr (), s\<lparr> setItem_calls := setItem_calls s @ [(STORAGE_KEY, JSON_stringify rt cats)],
                 localStorage := (localStorage s)(STORAGE_KEY \<mapsto> JSON_stringify rt cats),
                 categoriesSignal := cats \<rparr>)"
  by (simp add: updateCategories_def setItem_def)

lemma updateCategories_throws:
  "updateCategories rt (Some e) cats s =
     (Inr (), s\<lparr> setItem_calls := setItem_calls s @ [(STORAGE_KEY, JSON_stringify rt cats)],
                 console := console s @ [(''Error al guardar las categorias:'', e)] \<rparr>)"
  by (simp add: updateCategories_def setItem_def console_error_def)

lemma updateCategories_never_raises: "\<exists>s'. updateCategories rt throws cats s = (Inr (), s')"
  by (cases throws) (simp_all add: updateCategories_ok updateCategories_throws)

lemmas example_defs =
  example_runtime_def work_def home_def play_def example_store_def example_remote_def
  rename_to_Job_def study_dto_def quiet_env_def ticking_env_def colliding_env_def earlier_def
  store_with_earlier_def study_def job_def

section \<open>Operations on an unknown identifier\<close>

text \<open>
  C4. For an identifier that no category of the current collection has, \<open>updateCategory\<close>
  returns \<open>null\<close> and \<open>deleteCategory\<close> returns \<open>false\<close>, in both stores, and the whole
  state is the one before the call: the collection, the storage contents, the list of
  \<open>setItem\<close> calls (local) or of Firestore writes (remote) and the console. Nothing is
  raised, whatever the environment would have answered to a write.
\<close>

theorem unknown_id_changes_nothing:
  assumes "i \<notin> cat_id ` set (categories s)"
    and "j \<notin> cat_id ` set (fb_categories r)"
  shows "updateCategory rt now throws i dto s = (Inr None, s)
       \<and> deleteCategory rt throws' i s = (Inr False, s)
       \<and> fb_updateCategory rejected now' j dto' r = (Inr None, r)
       \<and> fb_deleteCategory rejected' j r = (Inr False, r)"
proof -
  from assms(1) have no_match: "\<forall>c \<in> set (categories s). cat_id c \<noteq> i" by auto
  then have "findIndex (\<lambda>c. cat_id c = i) (categories s) = None"
    by (simp add: findIndex_None_iff)
  then have upd: "updateCategory rt now throws i dto s = (Inr None, s)"
    by (simp add: updateCategory_def)
  from no_match have "length (filter (\<lambda>c. cat_id c \<noteq> i) (categories s)) = length (categories s)"
    by (simp add: filter_same_length)
  then have del: "deleteCategory rt throws' i s = (Inr False, s)"
    by (simp add: deleteCategory_def Let_def)
  from assms(2) have "fb_getCategoryById r j = None"
    by (auto simp: fb_getCategoryById_def find_None_iff)
  then have "fb_updateCategory rejected now' j dto' r = (Inr None, r)"
    and "fb_deleteCategory rejected' j r = (Inr False, r)"
    by (simp_all add: fb_updateCategory_def fb_deleteCategory_def)
  with upd del show ?thesis by simp
qed

theorem unknown_id_changes_nothing_witness:
  "''zzz'' \<notin> cat_id ` set (categories example_store)
   \<and> ''zzz'' \<notin> cat_id ` set (fb_categories example_remote)
   \<and> updateCategory example_runtime 5000 (Some QuotaExceededError) ''zzz'' rename_to_Job example_store
       = (Inr None, example_store)
   \<and> deleteCategory example_runtime (Some QuotaExceededError) ''zzz'' example_store
       = (Inr False, example_store)
   \<and> fb_updateCategory (Some (FirebaseError ''unavailable'')) 5000 ''zzz'' rename_to_Job example_remote
       = (Inr None, example_remote)
   \<and> fb_deleteCategory (Some (FirebaseError ''unavailable'')) ''zzz'' example_remote
       = (Inr False, example_remote)"
proof -
  have a: "''zzz'' \<notin> cat_id ` set (categories example_store)"
    by (simp add: categories_def example_defs)
  have b: "''zzz'' \<notin> cat_id ` set (fb_categories example_remote)"
    by (simp add: fb_categories_def example_defs)
  from unknown_id_changes_nothing [OF a b] a b show ?thesis by simp
qed

section \<open>Creation in the local store\<close>

text \<open>
  C10. A \<open>createCategory\<close> whose write to \<open>localStorage\<close> succeeds returns the new
  category and leaves the collection equal to the prior collection followed by that one
  category: the prior elements are the first elements, unchanged and in their order, and
  the new category is the single last element.
\<close>

theorem created_category_is_appended:
  assumes "createCategory rt env None dto s = (r, s')"
  shows "\<exists>c. r = Inr c
           \<and> categories s' = categories s @ [c]
           \<and> take (length (categories s)) (categories s') = categories s
           \<and> length (categories s') = Suc (length (categories s))
           \<and> last (categories s') = c"
  using assms by (auto simp: createCategory_def Let_def updateCategories_ok categories_def)

theorem created_category_is_appended_witness:
  "fst (createCategory example_runtime quiet_env None study_dto example_store) = Inr study
   \<and> categories (snd (createCategory example_runtime quiet_env None study_dto example_store))
       = [work, home, play, study]"
proof -
  obtain r s' where run: "createCategory example_runtime quiet_env None study_dto example_store = (r, s')"
    by (cases "createCategory example_runtime quiet_env None study_dto example_store")
  from created_category_is_appended [OF run] obtain c
    where c: "r = Inr c" and app: "categories s' = categories example_store @ [c]" by blast
  from run c have "c = study"
    by (simp add: createCategory_def Let_def updateCategories_ok example_defs eval_id)
  with run c app show ?thesis by (simp add: categories_def example_store_def)
qed

text \<open>
  C2, as amended. \<open>createCategory\<close> always returns a category with the DTO's four fields,
  a non-empty identifier (the clock reading, a hyphen and up to nine characters of the
  random draw), \<open>createdAt\<close> and \<open>updatedAt\<close> the two successive clock readings, hence
  equal when the clock did not tick between them. When the write to \<open>localStorage\<close>
  succeeds and no category of the store already has the identifier, \<open>getCategoryById\<close>
  returns that record right after.
\<close>

theorem create_round_trip:
  assumes "createCategory rt env throws dto s = (r, s')"
  shows "\<exists>c. r = Inr c
           \<and> name c = c_name dto \<and> color c = c_color dto
           \<and> backgroundColor c = c_backgroundColor dto \<and> icon c = c_icon dto
           \<and> cat_id c = generateId (Date_now env) (random36 env) \<and> cat_id c \<noteq> []
           \<and> createdAt c = Date (new_Date_created env)
           \<and> updatedAt c = Date (new_Date_updated env)
           \<and> (new_Date_created env = new_Date_updated env \<longrightarrow> createdAt c = updatedAt c)
           \<and> (throws = None \<and> cat_id c \<notin> cat_id ` set (categories s)
                \<longrightarrow> getCategoryById s' (cat_id c) = Some c)"
proof -
  define c where "c =
     \<lparr> cat_id = generateId (Date_now env) (random36 env), name = c_name dto,
       color = c_color dto, backgroundColor = c_backgroundColor dto, icon = c_icon dto,
       createdAt = Date (new_Date_created env), updatedAt = Date (new_Date_updated env) \<rparr>"
  from assms have r: "r = Inr c"
    by (cases throws)
      (auto simp: createCategory_def Let_def updateCategories_ok updateCategories_throws c_def)
  have fields: "name c = c_name dto \<and> color c = c_color dto
      \<and> backgroundColor c = c_backgroundColor dto \<and> icon c = c_icon dto
      \<and> cat_id c = generateId (Date_now env) (random36 env) \<and> cat_id c \<noteq> []
      \<and> createdAt c = Date (new_Date_created env) \<and> updatedAt c = Date (new_Date_updated env)
      \<and> (new_Date_created env = new_Date_updated env \<longrightarrow> createdAt c = updatedAt c)"
    by (simp add: c_def generateId_not_empty)
  have found: "throws = None \<and> cat_id c \<notin> cat_id ` set (categories s)
      \<longrightarrow> getCategoryById s' (cat_id c) = Some c"
  proof (intro impI, elim conjE)
    assume ok: "throws = None" and fresh: "cat_id c \<notin> cat_id ` set (categories s)"
    from assms ok have "categories s' = categories s @ [c]"
      by (auto simp: createCategory_def Let_def updateCategories_ok categories_def c_def)
    moreover from fresh have "\<forall>x \<in> set (categories s). \<not> cat_id x = cat_id c"
      by (metis imageI)
    ultimately show "getCategoryById s' (cat_id c) = Some c"
      by (simp add: getCategoryById_def find_appended)
  qed
  from r fields found show ?thesis by blast
qed

theorem create_round_trip_witness:
  "fst (createCategory example_runtime quiet_env None study_dto example_store) = Inr study
   \<and> name study = c_name study_dto \<and> cat_id study \<noteq> [] \<and> createdAt study = updatedAt study
   \<and> cat_id study \<notin> cat_id ` set (categories example_store)
   \<and> getCategoryById (snd (createCategory example_runtime quiet_env None study_dto example_store))
        (cat_id study) = Some study"
proof -
  obtain r s' where run: "createCategory example_runtime quiet_env None study_dto example_store = (r, s')"
    by (cases "createCategory example_runtime quiet_env None study_dto example_store")
  from create_round_trip [OF run] obtain c where c: "r = Inr c"
    and found: "None = (None :: js_error option) \<and> cat_id c \<notin> cat_id ` set (categories example_store)
                  \<longrightarrow> getCategoryById s' (cat_id c) = Some c"
    by blast
  from run c have eq: "c = study"
    by (simp add: createCategory_def Let_def updateCategories_ok example_defs eval_id)
  have fresh: "cat_id study \<notin> cat_id ` set (categories example_store)"
    by (simp add: categories_def example_defs)
  with found eq have "getCategoryById s' (cat_id study) = Some study" by simp
  with run c eq fresh show ?thesis by (simp add: example_defs)
qed

text \<open>
  The claim as written fails in three ways. When the write to \<open>localStorage\<close> throws, the
  returned category is not in the store. When the clock ticks between the two
  \<open>new Date()\<close>, \<open>createdAt\<close> and \<open>updatedAt\<close> differ. When the clock reading and the
  random draw repeat those of an earlier creation, the identifier is the one of a stored
  category, and \<open>getCategoryById\<close> returns the earlier record.
\<close>

theorem create_round_trip_counterexample:
  "fst (createCategory example_runtime quiet_env (Some QuotaExceededError) study_dto example_store)
     = Inr study
   \<and> getCategoryById
        (snd (createCategory example_runtime quiet_env (Some QuotaExceededError) study_dto
                example_store)) (cat_id study) = None
   \<and> fst (createCategory example_runtime ticking_env None study_dto example_store)
       = Inr (study\<lparr> updatedAt := Date 4001 \<rparr>)
   \<and> createdAt (study\<lparr> updatedAt := Date 4001 \<rparr>) \<noteq> updatedAt (study\<lparr> updatedAt := Date 4001 \<rparr>)
   \<and> fst (createCategory example_runtime colliding_env None study_dto store_with_earlier)
       = Inr (study\<lparr> cat_id := ''1000-abc'', createdAt := Date 1000, updatedAt := Date 1000 \<rparr>)
   \<and> ''1000-abc'' \<in> cat_id ` set (categories store_with_earlier)
   \<and> getCategoryById
        (snd (createCategory example_runtime colliding_env None study_dto store_with_earlier))
        ''1000-abc'' = Some earlier
   \<and> earlier \<noteq> study\<lparr> cat_id := ''1000-abc'', createdAt := Date 1000, updatedAt := Date 1000 \<rparr>"
  by (simp add: createCategory_def Let_def updateCategories_ok updateCategories_throws
      getCategoryById_def categories_def example_defs eval_id)

section \<open>Deletion in the local store\<close>




section \<open>Updates\<close>




section \<open>Failures of the backing store's write\<close>




section \<open>Derived values\<close>

text \<open>
  C5. After the construction of either store and any sequence of operations on it
  (create, update, delete and clear on the local store; create, update, delete and the
  subscription's deliveries and failures on the remote store), whatever the environment
  answered, \<open>categoryCount\<close> is the length of the snapshot, \<open>categoryStats.total\<close> is
  \<open>categoryCount\<close>, \<open>categoryStats.withTasks\<close> is 0 and \<open>categoryStats.empty\<close> is
  \<open>categoryStats.total\<close>.
\<close>

theorem count_and_stats_follow_the_collection:
  assumes "new_CategoryService rt getItem_throws storage = Inr s0"
    and "s = local_run rt ops s0"
    and "r = remote_run rops new_FirebaseCategoryService"
  shows "categoryCount s = length (getCategories s)
       \<and> total (categoryStats s) = categoryCount s
       \<and> withTasks (categoryStats s) = 0
       \<and> empty' (categoryStats s) = total (categoryStats s)
       \<and> fb_categoryCount r = length (fb_getCategories r)
       \<and> total (fb_categoryStats r) = fb_categoryCount r
       \<and> withTasks (fb_categoryStats r) = 0
       \<and> empty' (fb_categoryStats r) = total (fb_categoryStats r)"
  by (simp add: categoryCount_def categoryStats_def getCategories_def fb_categoryCount_def
      fb_categoryStats_def fb_getCategories_def)

theorem count_and_stats_follow_the_collection_witness:
  "new_CategoryService example_runtime None Map.empty = Inr (initial_CategoryService Map.empty)
   \<and> categoryCount (local_run example_runtime
        [Create quiet_env None study_dto, Delete None ''zzz'', Update 5000 None ''zzz'' rename_to_Job]
        (initial_CategoryService Map.empty)) = 1
   \<and> categoryStats (local_run example_runtime
        [Create quiet_env None study_dto, Delete None ''zzz'', Update 5000 None ''zzz'' rename_to_Job]
        (initial_CategoryService Map.empty)) = \<lparr> total = 1, withTasks = 0, empty' = 1 \<rparr>
   \<and> fb_categoryStats (remote_run
        [Fb_create (Inr ''doc1'') 4000 4000 study_dto, Notify_error (FirebaseError ''offline'')]
        new_FirebaseCategoryService) = \<lparr> total = 0, withTasks = 0, empty' = 0 \<rparr>"
proof -
  let ?ops = "[Create quiet_env None study_dto, Delete None ''zzz'',
               Update 5000 None ''zzz'' rename_to_Job]"
  let ?rops = "[Fb_create (Inr ''doc1'') 4000 4000 study_dto, Notify_error (FirebaseError ''offline'')]"
  have built: "new_CategoryService example_runtime None Map.empty
                 = Inr (initial_CategoryService Map.empty)"
    by (simp add: new_CategoryService_def loadCategories_def loadCategories_try_def
        initial_CategoryService_def)
  have len: "length (getCategories (local_run example_runtime ?ops (initial_CategoryService Map.empty)))
               = 1"
    by (simp add: local_run_def createCategory_def deleteCategory_def updateCategory_def Let_def
        updateCategories_ok getCategories_def categories_def initial_CategoryService_def eval_id
        example_defs)
  have rlen: "length (fb_getCategories (remote_run ?rops new_FirebaseCategoryService)) = 0"
    by (simp add: remote_run_def subscription_error_def fb_getCategories_def fb_categories_def)
  from count_and_stats_follow_the_collection [OF built refl refl, of ?ops ?rops] len rlen built
  show ?thesis
    by (simp add: categoryStats_def fb_categoryStats_def)
qed

text \<open>
  C7. \<open>getCategoriesWithCount\<close> returns, for the categories of the snapshot in their
  order, one record each, whose category fields are those of the category and whose
  \<open>taskCount\<close> is the mapping's value at the category's identifier, 0 when the mapping
  has none. It is a function of the snapshot and the mapping alone: its model takes no
  storage and returns no state.
\<close>

theorem counted_categories_follow_the_snapshot:
  "map Category.truncate (getCategoriesWithCount s taskCounts) = categories s
   \<and> map taskCount (getCategoriesWithCount s taskCounts)
       = map (\<lambda>c. case taskCounts (cat_id c) of Some n \<Rightarrow> n | None \<Rightarrow> 0) (categories s)
   \<and> length (getCategoriesWithCount s taskCounts) = length (categories s)
   \<and> map Category.truncate (fb_getCategoriesWithCount r taskCounts) = fb_categories r
   \<and> map taskCount (fb_getCategoriesWithCount r taskCounts)
       = map (\<lambda>c. case taskCounts (cat_id c) of Some n \<Rightarrow> n | None \<Rightarrow> 0) (fb_categories r)
   \<and> length (fb_getCategoriesWithCount r taskCounts) = length (fb_categories r)"
proof -
  have fields: "\<And>c n. Category.truncate (with_count c n) = c"
    by (simp add: with_count_def Category.defs CategoryWithCount.defs)
  have count: "\<And>c n. taskCount (with_count c n) = n"
    by (simp add: with_count_def Category.defs CategoryWithCount.defs)
  have zero: "\<And>v. or_zero v = (case v of Some n \<Rightarrow> n | None \<Rightarrow> 0)"
    by (simp add: or_zero_def split: option.splits)
  show ?thesis
    by (simp add: getCategoriesWithCount_def fb_getCategoriesWithCount_def comp_def fields count
        zero)
qed

lemma getCategoriesWithCount_example:
  "map taskCount (getCategoriesWithCount example_store [''a'' \<mapsto> 3, ''c'' \<mapsto> 5]) = [3, 0, 5]
   \<and> map Category.truncate (getCategoriesWithCount example_store [''a'' \<mapsto> 3, ''c'' \<mapsto> 5])
       = [work, home, play]"
  by (simp add: getCategoriesWithCount_def with_count_def or_zero_def categories_def
      Category.defs CategoryWithCount.defs example_defs)

section \<open>Loading on construction\<close>

lemma loadCategories_try_frame:
  "loadCategories_try rt getItem_throws s = Inr s' \<Longrightarrow>
     localStorage s' = localStorage s \<and> setItem_calls s' = setItem_calls s \<and> console s' = console s"
  by (auto simp: loadCategories_try_def split: option.splits if_splits sum.splits parsed.splits)

lemma loadCategories_try_absent:
  "localStorage s STORAGE_KEY = None \<Longrightarrow> loadCategories_try rt None s = Inr s"
  by (simp add: loadCategories_try_def)

lemma loadCategories_try_read_throws: "loadCategories_try rt (Some e) s = Inl e"
  by (simp add: loadCategories_try_def)

lemma loadCategories_try_parse_throws:
  "localStorage s STORAGE_KEY = Some stored \<Longrightarrow> stored \<noteq> [] \<Longrightarrow> JSON_parse rt stored = Inl e \<Longrightarrow>
     loadCategories_try rt None s = Inl e"
  by (simp add: loadCategories_try_def)

lemma loadCategories_try_not_array:
  "localStorage s STORAGE_KEY = Some stored \<Longrightarrow> stored \<noteq> [] \<Longrightarrow>
     JSON_parse rt stored = Inr Not_array \<Longrightarrow> loadCategories_try rt None s = Inl TypeError"
  by (simp add: loadCategories_try_def)

lemma map_throwing_null: "Null_item \<in> set items \<Longrightarrow> map_throwing (revive rt) items = Inl TypeError"
  by (induction items) (auto simp: revive_def split: sum.splits parsed_item.splits)

lemma loadCategories_try_null_item:
  "localStorage s STORAGE_KEY = Some stored \<Longrightarrow> stored \<noteq> [] \<Longrightarrow>
     JSON_parse rt stored = Inr (Array items) \<Longrightarrow> Null_item \<in> set items \<Longrightarrow>
     loadCategories_try rt None s = Inl TypeError"
  by (simp add: loadCategories_try_def map_throwing_null)

text \<open>
  C8. The construction of a local store always returns a store. When nothing is stored
  under the key \<open>categories\<close>, its collection is empty and nothing is logged. When the
  read or the parse fails (\<open>getItem\<close> throws, \<open>JSON.parse\<close> throws, or anything else in
  the \<open>try\<close> block throws), the error is logged and the collection is empty.
\<close>

theorem construction_never_raises:
  "\<exists>s. new_CategoryService rt getItem_throws storage = Inr s
      \<and> localStorage s = storage \<and> setItem_calls s = []
      \<and> (getItem_throws = None \<and> storage STORAGE_KEY = None
           \<longrightarrow> categories s = [] \<and> console s = [])
      \<and> (\<forall>e. getItem_throws = Some e
           \<longrightarrow> categories s = [] \<and> console s = [(''Error al cargar las categorias:'', e)])
      \<and> (\<forall>e stored. getItem_throws = None \<and> storage STORAGE_KEY = Some stored \<and> stored \<noteq> []
                     \<and> JSON_parse rt stored = Inl e
           \<longrightarrow> categories s = [] \<and> console s = [(''Error al cargar las categorias:'', e)])
      \<and> (\<forall>e. loadCategories_try rt getItem_throws (initial_CategoryService storage) = Inl e
           \<longrightarrow> categories s = [] \<and> console s = [(''Error al cargar las categorias:'', e)])"
proof (cases "loadCategories_try rt getItem_throws (initial_CategoryService storage)")
  case (Inl e)
  let ?s = "(console_error ''Error al cargar las categorias:'' e (initial_CategoryService storage))
              \<lparr> categoriesSignal := [] \<rparr>"
  from Inl have built: "new_CategoryService rt getItem_throws storage = Inr ?s"
    by (simp add: new_CategoryService_def loadCategories_def)
  have logged: "categories ?s = [] \<and> console ?s = [(''Error al cargar las categorias:'', e)]
      \<and> localStorage ?s = storage \<and> setItem_calls ?s = []"
    by (simp add: categories_def console_error_def initial_CategoryService_def)
  from Inl have not_absent: "\<not> (getItem_throws = None \<and> storage STORAGE_KEY = None)"
    by (auto simp: loadCategories_try_def initial_CategoryService_def split: option.splits)
  from Inl have read: "\<forall>e'. getItem_throws = Some e' \<longrightarrow> e' = e"
    by (auto simp: loadCategories_try_read_throws)
  from Inl have parse: "\<forall>e' stored. getItem_throws = None \<and> storage STORAGE_KEY = Some stored
      \<and> stored \<noteq> [] \<and> JSON_parse rt stored = Inl e' \<longrightarrow> e' = e"
    by (auto simp: loadCategories_try_def initial_CategoryService_def split: option.splits)
  from built logged not_absent read parse Inl show ?thesis by auto
next
  case (Inr s)
  then have built: "new_CategoryService rt getItem_throws storage = Inr s"
    by (simp add: new_CategoryService_def loadCategories_def)
  from loadCategories_try_frame [OF Inr]
  have frame: "localStorage s = storage \<and> setItem_calls s = [] \<and> console s = []"
    by (simp add: initial_CategoryService_def)
  from Inr have absent: "getItem_throws = None \<and> storage STORAGE_KEY = None \<longrightarrow> categories s = []"
    by (auto simp: loadCategories_try_def categories_def initial_CategoryService_def
        split: option.splits)
  from Inr have read: "\<forall>e. getItem_throws \<noteq> Some e"
    by (cases getItem_throws) (simp_all add: loadCategories_try_read_throws)
  from Inr have parse: "\<forall>e stored. \<not> (getItem_throws = None \<and> storage STORAGE_KEY = Some stored
      \<and> stored \<noteq> [] \<and> JSON_parse rt stored = Inl e)"
    by (auto simp: loadCategories_try_def initial_CategoryService_def split: option.splits)
  from built frame absent read parse Inr show ?thesis by auto
qed

theorem construction_never_raises_witness:
  "(\<exists>s. new_CategoryService example_runtime None Map.empty = Inr s
       \<and> categories s = [] \<and> console s = [])
   \<and> (\<exists>s. new_CategoryService example_runtime (Some SecurityError) [''categories'' \<mapsto> ''[]'']
             = Inr s
       \<and> categories s = [] \<and> console s = [(''Error al cargar las categorias:'', SecurityError)])
   \<and> (\<exists>s. new_CategoryService example_runtime None [''categories'' \<mapsto> ''[{'']  = Inr s
       \<and> categories s = [] \<and> console s = [(''Error al cargar las categorias:'', SyntaxError)])"
proof -
  have parse: "JSON_parse example_runtime ''[{'' = Inl SyntaxError"
    by (simp add: example_runtime_def)
  from construction_never_raises [of example_runtime None Map.empty]
  have absent: "\<exists>s. new_CategoryService example_runtime None Map.empty = Inr s
       \<and> categories s = [] \<and> console s = []"
    by auto
  from construction_never_raises [of example_runtime "Some SecurityError" "[''categories'' \<mapsto> ''[]'']"]
  have read: "\<exists>s. new_CategoryService example_runtime (Some SecurityError) [''categories'' \<mapsto> ''[]'']
             = Inr s
       \<and> categories s = [] \<and> console s = [(''Error al cargar las categorias:'', SecurityError)]"
    by auto
  from construction_never_raises [of example_runtime None "[''categories'' \<mapsto> ''[{'']"] parse
  have corrupt: "\<exists>s. new_CategoryService example_runtime None [''categories'' \<mapsto> ''[{'']  = Inr s
       \<and> categories s = [] \<and> console s = [(''Error al cargar las categorias:'', SyntaxError)]"
    by (auto simp: STORAGE_KEY_def)
  from absent read corrupt show ?thesis by blast
qed

section \<open>Values handed to callers\<close>

lemma alloc_frame:
  "alloc obj m = (r, m') \<Longrightarrow>
     r = next_ref m \<and> next_ref m' = Suc (next_ref m) \<and> signal_ref m' = signal_ref m
     \<and> heap m' r = Some obj \<and> (\<forall>q. q \<noteq> next_ref m \<longrightarrow> heap m' q = heap m q)"
  by (auto simp: alloc_def)

lemma counted_copies_frame:
  "counted_copies taskCounts rs m = (rs', m') \<Longrightarrow>
     next_ref m \<le> next_ref m' \<and> signal_ref m' = signal_ref m
     \<and> (\<forall>q < next_ref m. heap m' q = heap m q)
     \<and> (\<forall>q \<in> set rs'. next_ref m \<le> q \<and> q < next_ref m')"
proof (induction rs arbitrary: m rs' m')
  case Nil
  then show ?case by simp
next
  case (Cons r rs)
  show ?case
  proof (cases "category_at m r")
    case None
    with Cons.prems have "counted_copies taskCounts rs m = (rs', m')" by simp
    from Cons.IH [OF this] show ?thesis .
  next
    case (Some category)
    let ?obj = "CategoryWithCount_object (with_count category (or_zero (taskCounts (cat_id category))))"
    obtain r0 m0 where a: "alloc ?obj m = (r0, m0)" by (cases "alloc ?obj m")
    obtain rs0 m1 where rest: "counted_copies taskCounts rs m0 = (rs0, m1)"
      by (cases "counted_copies taskCounts rs m0")
    from Cons.prems Some a rest have out: "rs' = r0 # rs0" "m' = m1" by simp_all
    from alloc_frame [OF a] have r0: "r0 = next_ref m" and n0: "next_ref m0 = Suc (next_ref m)"
      and s0: "signal_ref m0 = signal_ref m"
      and h0: "\<forall>q. q \<noteq> next_ref m \<longrightarrow> heap m0 q = heap m q" by simp_all
    from Cons.IH [OF rest] have n1: "next_ref m0 \<le> next_ref m1"
      and s1: "signal_ref m1 = signal_ref m0"
      and h1: "\<forall>q < next_ref m0. heap m1 q = heap m0 q"
      and f1: "\<forall>q \<in> set rs0. next_ref m0 \<le> q \<and> q < next_ref m1" by simp_all
    from n0 n1 have "next_ref m \<le> next_ref m1" by simp
    moreover from s0 s1 have "signal_ref m1 = signal_ref m" by simp
    moreover from h0 h1 n0 have "\<forall>q < next_ref m. heap m1 q = heap m q" by simp
    moreover from r0 n0 n1 f1 have "\<forall>q \<in> set (r0 # rs0). next_ref m \<le> q \<and> q < next_ref m1"
      by auto
    ultimately show ?thesis using out by simp
  qed
qed


lemma map_filter_agree:
  "\<forall>r \<in> set rs. f r = g r \<Longrightarrow> List.map_filter f rs = List.map_filter g rs"
  by (simp add: map_filter_def cong: filter_cong map_cong)

text \<open>On references the operation computes the list that \<open>getCategoriesWithCount\<close>
  computes on values.\<close>

lemma counted_copies_value:
  "counted_copies taskCounts rs m = (rs', m') \<Longrightarrow> \<forall>r \<in> set rs. r < next_ref m \<Longrightarrow>
     List.map_filter (counted_at m') rs'
       = map (\<lambda>c. with_count c (or_zero (taskCounts (cat_id c))))
           (List.map_filter (category_at m) rs)"
proof (induction rs arbitrary: m rs' m')
  case Nil
  then show ?case by (simp add: map_filter_simps)
next
  case (Cons r rs)
  from Cons.prems(2) have below: "\<forall>q \<in> set rs. q < next_ref m" by simp
  show ?case
  proof (cases "category_at m r")
    case None
    with Cons.prems(1) have "counted_copies taskCounts rs m = (rs', m')" by simp
    from Cons.IH [OF this below] None show ?thesis by (simp add: map_filter_simps)
  next
    case (Some category)
    let ?c = "with_count category (or_zero (taskCounts (cat_id category)))"
    obtain r0 m0 where a: "alloc (CategoryWithCount_object ?c) m = (r0, m0)"
      by (cases "alloc (CategoryWithCount_object ?c) m")
    obtain rs0 m1 where rest: "counted_copies taskCounts rs m0 = (rs0, m1)"
      by (cases "counted_copies taskCounts rs m0")
    from Cons.prems(1) Some a rest have out: "rs' = r0 # rs0" "m' = m1" by simp_all
    from alloc_frame [OF a] have r0: "r0 = next_ref m" and n0: "next_ref m0 = Suc (next_ref m)"
      and at0: "heap m0 r0 = Some (CategoryWithCount_object ?c)"
      and h0: "\<forall>q. q \<noteq> next_ref m \<longrightarrow> heap m0 q = heap m q" by auto
    from below n0 have below0: "\<forall>q \<in> set rs. q < next_ref m0" by auto
    from below h0 have "\<forall>q \<in> set rs. category_at m0 q = category_at m q"
      by (auto simp: category_at_def)
    then have same: "List.map_filter (category_at m0) rs = List.map_filter (category_at m) rs"
      by (rule map_filter_agree)
    from counted_copies_frame [OF rest] r0 n0 have "heap m1 r0 = heap m0 r0" by simp
    with at0 have "counted_at m1 r0 = Some ?c" by (simp add: counted_at_def)
    with Cons.IH [OF rest below0] same Some out show ?thesis
      by (simp add: map_filter_simps)
  qed
qed

lemma getCategoriesWithCount_ref_value:
  assumes "\<forall>r \<in> set (elements m (signal_ref m)). r < next_ref m"
    and "getCategoriesWithCount_ref taskCounts m = (a, m')"
  shows "counted_array_value m' a
           = map (\<lambda>c. with_count c (or_zero (taskCounts (cat_id c)))) (store_value m)"
proof -
  obtain rs1 m1 where copies:
    "counted_copies taskCounts (elements m (categories_ref m)) m = (rs1, m1)"
    by (cases "counted_copies taskCounts (elements m (categories_ref m)) m")
  with assms(2) have arr: "alloc (Array_object rs1) m1 = (a, m')"
    by (simp add: getCategoriesWithCount_ref_def)
  from alloc_frame [OF arr] have a: "a = next_ref m1"
    and at_a: "heap m' a = Some (Array_object rs1)"
    and h': "\<forall>q. q \<noteq> next_ref m1 \<longrightarrow> heap m' q = heap m1 q" by auto
  from counted_copies_frame [OF copies] have "\<forall>q \<in> set rs1. q < next_ref m1" by simp
  with h' have "\<forall>q \<in> set rs1. counted_at m' q = counted_at m1 q"
    by (auto simp: counted_at_def)
  then have "List.map_filter (counted_at m') rs1 = List.map_filter (counted_at m1) rs1"
    by (rule map_filter_agree)
  moreover from assms(1) have "\<forall>r \<in> set (elements m (categories_ref m)). r < next_ref m"
    by (simp add: categories_ref_def)
  note counted_copies_value [OF copies this]
  ultimately show ?thesis using at_a
    by (simp add: counted_array_value_def elements_def store_value_def array_value_def
        categories_ref_def)
qed





end
